theory Spec2Isabelle
  imports Main "HOL-Library.Sublist"
begin

section \<open>The chat client of \<^verbatim>\<open>chatbot-frontend/src/App.js\<close>\<close>

text \<open>
  The component \<^verbatim>\<open>App\<close> holds five pieces of React state (\<^verbatim>\<open>input\<close>,
  \<^verbatim>\<open>messages\<close>, \<^verbatim>\<open>turnId\<close>, \<^verbatim>\<open>chatSessionId\<close>, \<^verbatim>\<open>loading\<close>) and talks to the
  backend through two \<^verbatim>\<open>fetch\<close> calls. The embedding passes the state explicitly, records
  every outgoing request and every console line in the state, and takes the outcome of
  each awaited call as an argument of the part of the function that runs after the
  \<^verbatim>\<open>await\<close>.

  Numbers: \<^verbatim>\<open>turnId\<close> is a JavaScript number that starts at 1 and only ever has 1 added
  to it; it is modelled as an \<open>int\<close>, which is exact below \<open>2^53\<close>. Strings are
  \<open>string\<close>: a \<open>char\<close> stands for a code unit below 256 (U+0000 to U+00FF).
\<close>

subsection \<open>JavaScript values\<close>

datatype jsval =
    JUndefined
  | JNull
  | JBool bool
  | JNum int
  | JStr string
  | JArr "jsval list"
  | JObj "(string \<times> jsval) list"

datatype js_error = FetchRejected | BodyNotJson | NullProperty

text \<open>
  Reading a property of a value, for the two keys the client reads (\<^verbatim>\<open>response\<close> and
  \<^verbatim>\<open>chat_session_id\<close>, neither of which any prototype defines): \<^verbatim>\<open>null\<close> and
  \<^verbatim>\<open>undefined\<close> throw a TypeError, an object gives its own property or
  \<^verbatim>\<open>undefined\<close>, every other value gives \<^verbatim>\<open>undefined\<close>.
\<close>

fun get_prop :: "jsval \<Rightarrow> string \<Rightarrow> js_error + jsval" where
  "get_prop JUndefined k = Inl NullProperty"
| "get_prop JNull k = Inl NullProperty"
| "get_prop (JObj kvs) k = Inr (case map_of kvs k of None \<Rightarrow> JUndefined | Some v \<Rightarrow> v)"
| "get_prop (JBool b) k = Inr JUndefined"
| "get_prop (JNum n) k = Inr JUndefined"
| "get_prop (JStr s) k = Inr JUndefined"
| "get_prop (JArr vs) k = Inr JUndefined"

subsection \<open>\<^verbatim>\<open>String.prototype.trim\<close> and \<^verbatim>\<open>Number.prototype.toString\<close>\<close>

text \<open>
  \<^verbatim>\<open>trim\<close> strips the white space and the line terminators of ECMAScript from both ends.
  Among the code units below 256 these are the tab, line feed, vertical tab, form feed,
  carriage return, the space and the no-break space U+00A0. (The others lie above U+00FF:
  U+1680, U+2000 to U+200A, U+2028, U+2029, U+202F, U+205F, U+3000 and U+FEFF.)
\<close>

definition is_ws :: "char \<Rightarrow> bool" where
  "is_ws c =
     (c \<in> set [CHR 0x09, CHR 0x0A, CHR 0x0B, CHR 0x0C, CHR 0x0D, CHR '' '', CHR 0xA0])"

definition trim :: "string \<Rightarrow> string" where
  "trim s = rev (dropWhile is_ws (rev (dropWhile is_ws s)))"

definition digit_char :: "nat \<Rightarrow> char" where
  "digit_char d = ''0123456789'' ! d"

fun string_of_nat :: "nat \<Rightarrow> string" where
  "string_of_nat n =
     (if n < 10 then [digit_char n] else string_of_nat (n div 10) @ [digit_char (n mod 10)])"

declare string_of_nat.simps [simp del]

definition toString :: "int \<Rightarrow> string" where
  "toString i = (if i < 0 then CHR ''-'' # string_of_nat (nat (- i)) else string_of_nat (nat i))"

subsection \<open>Messages, requests and the state of the component\<close>

record message =
  sender :: string
  "text" :: jsval

record request =
  url :: string
  http_method :: string
  headers :: "(string \<times> string) list"
  body :: jsval

datatype console_entry =
    ConsoleLog string jsval
  | ConsoleError string js_error

record app =
  input :: string
  messages :: "message list"
  turnId :: int
  chatSessionId :: jsval
  loading :: bool
  sent :: "request list"
  console :: "console_entry list"
  alerts :: "string list"

text \<open>The \<^verbatim>\<open>useState\<close> initial values; nothing has been sent or logged yet.\<close>

definition App_init :: app where
  "App_init =
     \<lparr>input = '''', messages = [], turnId = 1, chatSessionId = JNull, loading = True,
      sent = [], console = [], alerts = []\<rparr>"

text \<open>
  The constants every render computes from the URL: \<^verbatim>\<open>urlParams.get\<close> returns the first
  value of the key, or \<^verbatim>\<open>null\<close>. The query string is taken as parsed, a list of pairs.
\<close>

record closure =
  prolificId :: "string option"
  sessionId :: "string option"

definition urlParams_get :: "(string \<times> string) list \<Rightarrow> string \<Rightarrow> string option" where
  "urlParams_get q k = map_of q k"

definition App_closure :: "(string \<times> string) list \<Rightarrow> closure" where
  "App_closure q =
     \<lparr>prolificId = urlParams_get q ''PROLIFIC_PID'', sessionId = urlParams_get q ''SESSION_ID''\<rparr>"

subsection \<open>The two awaited calls\<close>

text \<open>
  What \<^verbatim>\<open>await fetch(...)\<close> followed by \<^verbatim>\<open>await response.json()\<close> can do: the fetch
  rejects (network error), or it resolves with a response of some HTTP status whose body
  either is not JSON (\<open>None\<close>, \<^verbatim>\<open>json()\<close> rejects) or parses to a value. \<^verbatim>\<open>fetch\<close>
  resolves for every status, and the code reads neither \<^verbatim>\<open>response.ok\<close> nor
  \<^verbatim>\<open>response.status\<close>.
\<close>

datatype fetch_outcome = Rejected | Resolved nat "jsval option"

definition await_json :: "fetch_outcome \<Rightarrow> js_error + jsval" where
  "await_json r =
     (case r of
        Rejected \<Rightarrow> Inl FetchRejected
      | Resolved status b \<Rightarrow> (case b of None \<Rightarrow> Inl BodyNotJson | Some data \<Rightarrow> Inr data))"

text \<open>The Fetch API's \<^verbatim>\<open>response.ok\<close>: a status from 200 to 299.\<close>

definition http_ok :: "nat \<Rightarrow> bool" where
  "http_ok status = (200 \<le> status \<and> status \<le> 299)"

subsection \<open>\<^verbatim>\<open>changeEvent\<close>\<close>

definition chat_request :: "string \<Rightarrow> int \<Rightarrow> request" where
  "chat_request inp turn =
     \<lparr>url = ''http://127.0.0.1:8000/chat'', http_method = ''POST'',
      headers = [(''Content-Type'', ''application/json'')],
      body = JObj [(''user_message'', JStr inp),
                   (''client_turn_id'', JStr (toString turn)),
                   (''chat_session_id'', JStr ''XYZ'')]\<rparr>"

text \<open>The three message objects that \<^verbatim>\<open>changeEvent\<close> builds.\<close>

definition userMessage :: "string \<Rightarrow> message" where
  "userMessage inp = \<lparr>sender = ''user'', text = JStr inp\<rparr>"

definition botMessage :: "jsval \<Rightarrow> message" where
  "botMessage t = \<lparr>sender = ''bot'', text = t\<rparr>"

definition errorMessage :: message where
  "errorMessage = \<lparr>sender = ''error'', text = JStr ''Error sending message.''\<rparr>"

text \<open>
  The synchronous part, up to the first \<^verbatim>\<open>await\<close>: \<open>None\<close> is the early return on an
  input that trims to the empty string; otherwise the user message is appended and the
  request goes out, with the \<^verbatim>\<open>input\<close> and \<^verbatim>\<open>turnId\<close> of the current render.
\<close>

definition changeEvent_call :: "app \<Rightarrow> app option" where
  "changeEvent_call st =
     (if trim (input st) = '''' then None
      else Some (st\<lparr>messages := messages st @ [userMessage (input st)],
                    sent := sent st @ [chat_request (input st) (turnId st)]\<rparr>))"

text \<open>The body of the \<^verbatim>\<open>try\<close> block after the request: the text of the bot message, or what is thrown.\<close>

definition changeEvent_try :: "fetch_outcome \<Rightarrow> js_error + jsval" where
  "changeEvent_try r =
     (case await_json r of Inl e \<Rightarrow> Inl e | Inr data \<Rightarrow> get_prop data ''response'')"

text \<open>
  The part after the \<^verbatim>\<open>await\<close>. The three state updates of the success path are
  functional updates or constants, so they act on the state at the time the call settles.
\<close>

definition changeEvent_resume :: "fetch_outcome \<Rightarrow> app \<Rightarrow> app" where
  "changeEvent_resume r st =
     (case changeEvent_try r of
        Inr t \<Rightarrow>
          st\<lparr>messages := messages st @ [botMessage t],
             turnId := turnId st + 1,
             input := ''''\<rparr>
      | Inl e \<Rightarrow>
          st\<lparr>messages := messages st @ [errorMessage],
             console := console st @ [ConsoleError ''Error sending message:'' e]\<rparr>)"

text \<open>The request of an exchange fails when the \<^verbatim>\<open>try\<close> block throws, so that the \<^verbatim>\<open>catch\<close> runs.\<close>

definition chat_fails :: "fetch_outcome \<Rightarrow> bool" where
  "chat_fails r = (case changeEvent_try r of Inl e \<Rightarrow> True | Inr t \<Rightarrow> False)"

text \<open>One whole call of \<^verbatim>\<open>changeEvent\<close> with nothing interleaved, given the outcome of its request.\<close>

definition changeEvent :: "fetch_outcome \<Rightarrow> app \<Rightarrow> app" where
  "changeEvent r st =
     (case changeEvent_call st of None \<Rightarrow> st | Some st' \<Rightarrow> changeEvent_resume r st')"

subsection \<open>\<^verbatim>\<open>startSession\<close>\<close>

definition startSession_request :: "closure \<Rightarrow> request" where
  "startSession_request c =
     \<lparr>url = ''http://127.0.0.1:8000/session/start'', http_method = ''POST'',
      headers = [(''Content-Type'', ''application/json'')],
      body = JObj [(''pid'', JStr ''123456789''),
                   (''study_id'', JStr ''study_001''),
                   (''prolific_session_id'', JStr ''sessionId''),
                   (''qr_pre'', JStr ''qr_001''),
                   (''experiment_id'', JStr ''exp_001'')]\<rparr>"

definition startSession_call :: "closure \<Rightarrow> app \<Rightarrow> app" where
  "startSession_call c st = st\<lparr>sent := sent st @ [startSession_request c]\<rparr>"

text \<open>
  After the \<^verbatim>\<open>await\<close>: the parsed body is logged before its \<^verbatim>\<open>chat_session_id\<close> is
  read, whatever is read is stored, a throw is logged by the \<^verbatim>\<open>catch\<close>, and the
  \<^verbatim>\<open>finally\<close> clears \<^verbatim>\<open>loading\<close> on every path.
\<close>

definition startSession_resume :: "fetch_outcome \<Rightarrow> app \<Rightarrow> app" where
  "startSession_resume r st =
     (let st' =
        (case await_json r of
           Inl e \<Rightarrow> st\<lparr>console := console st @ [ConsoleError ''Failed to start session:'' e]\<rparr>
         | Inr data \<Rightarrow>
             (case get_prop data ''chat_session_id'' of
                Inl e \<Rightarrow>
                  st\<lparr>console := console st @
                       [ConsoleLog ''Session started:'' data,
                        ConsoleError ''Failed to start session:'' e]\<rparr>
              | Inr v \<Rightarrow>
                  st\<lparr>console := console st @ [ConsoleLog ''Session started:'' data],
                     chatSessionId := v\<rparr>))
      in st'\<lparr>loading := False\<rparr>)"

definition startSession :: "closure \<Rightarrow> fetch_outcome \<Rightarrow> app \<Rightarrow> app" where
  "startSession c r st = startSession_resume r (startSession_call c st)"

subsection \<open>The rendered controls and the events of the view\<close>

definition setInput :: "string \<Rightarrow> app \<Rightarrow> app" where
  "setInput v st = st\<lparr>input := v\<rparr>"

text \<open>The send button: \<^verbatim>\<open>disabled={!input.trim()}\<close>.\<close>

definition button_disabled :: "app \<Rightarrow> bool" where
  "button_disabled st = (trim (input st) = '''')"

definition handleEndChat :: "app \<Rightarrow> app" where
  "handleEndChat st = st\<lparr>alerts := alerts st @ [''redirection to survey soon.'']\<rparr>"

text \<open>
  The events that reach the component: typing, a click on the send button (ignored by
  the browser while the button is disabled), the settling of a chat request, the mount
  effect, the settling of the session request, and the end-chat button.
\<close>

datatype event =
    OnChange string
  | Click
  | ChatSettled fetch_outcome
  | Mounted
  | SessionSettled fetch_outcome
  | EndChat

fun step :: "closure \<Rightarrow> event \<Rightarrow> app \<Rightarrow> app" where
  "step c (OnChange v) st = setInput v st"
| "step c Click st =
     (if button_disabled st then st
      else (case changeEvent_call st of None \<Rightarrow> st | Some st' \<Rightarrow> st'))"
| "step c (ChatSettled r) st = changeEvent_resume r st"
| "step c Mounted st = startSession_call c st"
| "step c (SessionSettled r) st = startSession_resume r st"
| "step c EndChat st = handleEndChat st"

fun run :: "closure \<Rightarrow> event list \<Rightarrow> app \<Rightarrow> app" where
  "run c [] st = st"
| "run c (e # es) st = run c es (step c e st)"

text \<open>
  A sequence of exchanges, one after the other: the user types a text, clicks, and the
  request settles before the next text is typed.
\<close>

definition exchange :: "string \<times> fetch_outcome \<Rightarrow> app \<Rightarrow> app" where
  "exchange x st = changeEvent (snd x) (setInput (fst x) st)"

fun exchanges :: "(string \<times> fetch_outcome) list \<Rightarrow> app \<Rightarrow> app" where
  "exchanges [] st = st"
| "exchanges (x # xs) st = exchanges xs (exchange x st)"

section \<open>Properties of the model\<close>

subsection \<open>Auxiliary facts\<close>

lemma trim_empty_iff: "trim s = [] \<longleftrightarrow> (\<forall>c\<in>set s. is_ws c)"
proof
  assume "trim s = []"
  then have a: "\<forall>c\<in>set (dropWhile is_ws s). is_ws c"
    by (simp add: trim_def)
  have "dropWhile is_ws s = []"
  proof (rule ccontr)
    assume n: "dropWhile is_ws s \<noteq> []"
    then have "\<not> is_ws (hd (dropWhile is_ws s))" by (rule hd_dropWhile)
    moreover from n have "hd (dropWhile is_ws s) \<in> set (dropWhile is_ws s)" by simp
    ultimately show False using a by blast
  qed
  then show "\<forall>c\<in>set s. is_ws c" by simp
next
  assume "\<forall>c\<in>set s. is_ws c"
  then have "dropWhile is_ws s = []" by simp
  then show "trim s = []" by (simp add: trim_def del: dropWhile_eq_Nil_conv)
qed


lemma changeEvent_blank: "trim (input st) = [] \<Longrightarrow> changeEvent r st = st"
  by (simp add: changeEvent_def changeEvent_call_def)

lemma changeEvent_thrown:
  assumes "trim (input st) \<noteq> []" and "changeEvent_try r = Inl e"
  shows "messages (changeEvent r st) = messages st @ [userMessage (input st), errorMessage]"
    and "turnId (changeEvent r st) = turnId st"
    and "input (changeEvent r st) = input st"
    and "sent (changeEvent r st) = sent st @ [chat_request (input st) (turnId st)]"
    and "console (changeEvent r st) = console st @ [ConsoleError ''Error sending message:'' e]"
  using assms
  by (simp_all add: changeEvent_def changeEvent_call_def changeEvent_resume_def)

lemma changeEvent_replied:
  assumes "trim (input st) \<noteq> []" and "changeEvent_try r = Inr t"
  shows "messages (changeEvent r st) =
           messages st @ [userMessage (input st), botMessage t]"
    and "turnId (changeEvent r st) = turnId st + 1"
    and "input (changeEvent r st) = []"
    and "sent (changeEvent r st) = sent st @ [chat_request (input st) (turnId st)]"
    and "console (changeEvent r st) = console st"
  using assms
  by (simp_all add: changeEvent_def changeEvent_call_def changeEvent_resume_def)

lemma chat_fails_thrown: "chat_fails r \<Longrightarrow> \<exists>e. changeEvent_try r = Inl e"
  by (cases "changeEvent_try r") (simp_all add: chat_fails_def)

lemma not_chat_fails_replied: "\<not> chat_fails r \<Longrightarrow> \<exists>t. changeEvent_try r = Inr t"
  by (cases "changeEvent_try r") (simp_all add: chat_fails_def)

lemma step_messages_prefix: "prefix (messages st) (messages (step c e st))"
  by (cases e)
    (auto simp: setInput_def button_disabled_def changeEvent_call_def changeEvent_resume_def
      startSession_call_def startSession_resume_def handleEndChat_def Let_def
      split: sum.splits)

lemma run_messages_prefix: "prefix (messages st) (messages (run c es st))"
proof (induction es arbitrary: st)
  case Nil
  show ?case by simp
next
  case (Cons e es)
  have "prefix (messages st) (messages (step c e st))" by (rule step_messages_prefix)
  also have "prefix (messages (step c e st)) (messages (run c es (step c e st)))"
    by (rule Cons.IH)
  finally show ?case by simp
qed



lemma exchange_replied:
  assumes "trim (fst x) \<noteq> []" and "\<not> chat_fails (snd x)"
  shows "turnId (exchange x st) = turnId st + 1"
    and "map sender (messages (exchange x st)) = map sender (messages st) @ [''user'', ''bot'']"
    and "sent (exchange x st) = sent st @ [chat_request (fst x) (turnId st)]"
proof -
  from assms(2) obtain t where t: "changeEvent_try (snd x) = Inr t"
    using not_chat_fails_replied by blast
  have i: "trim (input (setInput (fst x) st)) \<noteq> []" using assms(1) by (simp add: setInput_def)
  show "turnId (exchange x st) = turnId st + 1"
    using changeEvent_replied(2)[OF i t] by (simp add: exchange_def setInput_def)
  show "map sender (messages (exchange x st)) = map sender (messages st) @ [''user'', ''bot'']"
    using changeEvent_replied(1)[OF i t] by (simp add: exchange_def setInput_def userMessage_def botMessage_def)
  show "sent (exchange x st) = sent st @ [chat_request (fst x) (turnId st)]"
    using changeEvent_replied(4)[OF i t] by (simp add: exchange_def setInput_def)
qed

lemma exchanges_replied:
  "\<forall>x\<in>set xs. trim (fst x) \<noteq> [] \<and> \<not> chat_fails (snd x) \<Longrightarrow>
     turnId (exchanges xs st) = turnId st + int (length xs) \<and>
     map sender (messages (exchanges xs st)) =
       map sender (messages st) @ concat (replicate (length xs) [''user'', ''bot''])"
proof (induction xs arbitrary: st)
  case Nil
  show ?case by simp
next
  case (Cons x xs)
  then have x: "trim (fst x) \<noteq> []" "\<not> chat_fails (snd x)" by simp_all
  from Cons.prems have "\<forall>y\<in>set xs. trim (fst y) \<noteq> [] \<and> \<not> chat_fails (snd y)" by simp
  from Cons.IH[OF this, of "exchange x st"] show ?case
    by (simp add: exchange_replied(1,2)[OF x])
qed

lemma exchange_blank:
  assumes "\<forall>c\<in>set (fst x). is_ws c"
  shows "exchange x st = setInput (fst x) st"
proof -
  have "trim (input (setInput (fst x) st)) = []"
    using assms by (simp add: setInput_def trim_empty_iff)
  then show ?thesis unfolding exchange_def by (rule changeEvent_blank)
qed

lemma exchanges_blank:
  "\<forall>x\<in>set xs. \<forall>c\<in>set (fst x). is_ws c \<Longrightarrow>
     messages (exchanges xs st) = messages st \<and> turnId (exchanges xs st) = turnId st \<and>
     sent (exchanges xs st) = sent st \<and> console (exchanges xs st) = console st"
proof (induction xs arbitrary: st)
  case Nil
  show ?case by simp
next
  case (Cons x xs)
  then have "\<forall>c\<in>set (fst x). is_ws c" by simp
  then have e: "exchange x st = setInput (fst x) st" by (rule exchange_blank)
  from Cons.prems have "\<forall>y\<in>set xs. \<forall>c\<in>set (fst y). is_ws c" by simp
  from Cons.IH[OF this, of "setInput (fst x) st"] show ?case
    by (simp add: e setInput_def)
qed

lemma changeEvent_resume_status:
  "changeEvent_resume (Resolved status b) st = changeEvent_resume (Resolved status' b) st"
  by (simp add: changeEvent_resume_def changeEvent_try_def await_json_def)

lemma changeEvent_status:
  "changeEvent (Resolved status b) st = changeEvent (Resolved status' b) st"
  by (cases "changeEvent_call st")
    (simp_all add: changeEvent_def changeEvent_resume_status [of status b _ status'])


lemma startSession_status:
  "startSession c (Resolved status b) st = startSession c (Resolved status' b) st"
  by (simp add: startSession_def startSession_resume_def await_json_def)

lemma exchange_as_run:
  "exchange x st =
     run c (OnChange (fst x) # Click #
            (if trim (fst x) = [] then [] else [ChatSettled (snd x)])) st"
  by (simp add: exchange_def changeEvent_def changeEvent_call_def setInput_def
      button_disabled_def)


lemma exchange_messages_prefix: "prefix (messages st) (messages (exchange x st))"
  unfolding exchange_as_run [of x st "App_closure []"] by (rule run_messages_prefix)

lemma exchanges_messages_prefix: "prefix (messages st) (messages (exchanges xs st))"
proof (induction xs arbitrary: st)
  case Nil
  show ?case by simp
next
  case (Cons x xs)
  have "prefix (messages st) (messages (exchange x st))" by (rule exchange_messages_prefix)
  also have "prefix (messages (exchange x st)) (messages (exchanges xs (exchange x st)))"
    by (rule Cons.IH)
  finally show ?case by simp
qed

lemma changeEvent_messages_prefix: "prefix (messages st) (messages (changeEvent r st))"
proof -
  have "changeEvent r st = exchange (input st, r) st"
    by (simp add: exchange_def setInput_def)
  then show ?thesis by (simp add: exchange_messages_prefix)
qed

lemma startSession_messages: "messages (startSession c r st) = messages st"
  by (simp add: startSession_def startSession_call_def startSession_resume_def Let_def
      split: sum.splits)

subsection \<open>The claims\<close>

text \<open>
  Claim C1 says that the envelope of every exchange carries, as \<^verbatim>\<open>chat_session_id\<close>, the
  identifier that the session start obtained. The code stores that identifier in
  \<^verbatim>\<open>chatSessionId\<close> and never reads it: the envelope carries the literal \<^verbatim>\<open>"XYZ"\<close>.
  After a session start that returns \<^verbatim>\<open>"abc123"\<close>, the user types \<^verbatim>\<open>Hello\<close> and clicks: the
  stored identifier is \<^verbatim>\<open>"abc123"\<close>, the request sent has the user's text, the turn number
  \<^verbatim>\<open>"1"\<close>, and \<^verbatim>\<open>"XYZ"\<close> as its session identifier.
\<close>

theorem C1_envelope_session_id_placeholder:
  "chatSessionId
     (run (App_closure [])
        [Mounted,
         SessionSettled (Resolved 200 (Some (JObj [(''chat_session_id'', JStr ''abc123'')]))),
         OnChange ''Hello'', Click] App_init) = JStr ''abc123'' \<and>
   body (last (sent
     (run (App_closure [])
        [Mounted,
         SessionSettled (Resolved 200 (Some (JObj [(''chat_session_id'', JStr ''abc123'')]))),
         OnChange ''Hello'', Click] App_init))) =
     JObj [(''user_message'', JStr ''Hello''), (''client_turn_id'', JStr ''1''),
           (''chat_session_id'', JStr ''XYZ'')]"
  by code_simp

text \<open>
  Claim C2 says that no message request is ever issued once the session start has failed.
  In the execution below the session request is rejected (no identifier is stored, the
  failure is logged), then the user types \<^verbatim>\<open>Hello\<close> and clicks: the chat request goes out.
\<close>

theorem C2_counterexample:
  "chatSessionId (run (App_closure []) [Mounted, SessionSettled Rejected] App_init) = JNull \<and>
   console (run (App_closure []) [Mounted, SessionSettled Rejected] App_init) =
     [ConsoleError ''Failed to start session:'' FetchRejected] \<and>
   sent (run (App_closure []) [Mounted, SessionSettled Rejected, OnChange ''Hello'', Click] App_init) =
     [startSession_request (App_closure []), chat_request ''Hello'' 1]"
  by code_simp

text \<open>
  Claim C2, as the code has it: sending is gated by the pending input alone. The send
  button is disabled exactly when the input is empty or white space only (the white space
  that \<^verbatim>\<open>trim\<close> strips, the no-break space included); a click then
  sends nothing, and a click on the enabled button issues the chat request. Neither
  \<^verbatim>\<open>chatSessionId\<close> nor \<^verbatim>\<open>loading\<close> has any effect on the button or on what is sent, so a
  failed (or still pending) session start does not prevent a request.
\<close>

theorem C2_sending_gated_by_input_only:
  "button_disabled st = (\<forall>ch\<in>set (input st). is_ws ch) \<and>
   (button_disabled st \<longrightarrow> sent (step c Click st) = sent st) \<and>
   (\<not> button_disabled st \<longrightarrow>
      sent (step c Click st) = sent st @ [chat_request (input st) (turnId st)]) \<and>
   button_disabled (st\<lparr>chatSessionId := v, loading := b\<rparr>) = button_disabled st \<and>
   sent (step c Click (st\<lparr>chatSessionId := v, loading := b\<rparr>)) = sent (step c Click st)"
  by (simp add: button_disabled_def changeEvent_call_def trim_empty_iff)

text \<open>The statement at concrete inputs.\<close>

theorem C2_sending_gated_by_input_only_witness:
  "\<not> button_disabled (setInput ''Hello'' (startSession (App_closure []) Rejected App_init)) \<and>
   sent (step (App_closure []) Click
          (setInput ''Hello'' (startSession (App_closure []) Rejected App_init))) =
     [startSession_request (App_closure []), chat_request ''Hello'' 1] \<and>
   button_disabled (setInput ''  '' (startSession (App_closure []) Rejected App_init)) \<and>
   sent (step (App_closure []) Click
          (setInput ''  '' (startSession (App_closure []) Rejected App_init))) =
     [startSession_request (App_closure [])] \<and>
   button_disabled (setInput [CHR 0xA0] (startSession (App_closure []) Rejected App_init)) \<and>
   sent (step (App_closure []) Click
          (setInput [CHR 0xA0] (startSession (App_closure []) Rejected App_init))) =
     [startSession_request (App_closure [])]"
  using C2_sending_gated_by_input_only
          [of "setInput ''Hello'' (startSession (App_closure []) Rejected App_init)" "App_closure []"]
        C2_sending_gated_by_input_only
          [of "setInput ''  '' (startSession (App_closure []) Rejected App_init)" "App_closure []"]
        C2_sending_gated_by_input_only
          [of "setInput [CHR 0xA0] (startSession (App_closure []) Rejected App_init)" "App_closure []"]
  by (simp add: setInput_def startSession_def startSession_call_def startSession_resume_def
        await_json_def App_init_def is_ws_def Let_def)

text \<open>
  Claim C3 counts a non-2xx status and an absent \<^verbatim>\<open>response\<close> field as failures of an
  exchange. A reply of status 500 whose body is the empty JSON object is both, and the
  code appends a bot message (with the text \<^verbatim>\<open>undefined\<close>) and advances the turn counter.
\<close>

theorem C3_counterexample:
  "\<not> http_ok 500 \<and>
   get_prop (JObj []) ''response'' = Inr JUndefined \<and>
   messages (changeEvent (Resolved 500 (Some (JObj []))) (setInput ''Hello'' App_init)) =
     [userMessage ''Hello'', botMessage JUndefined] \<and>
   turnId (changeEvent (Resolved 500 (Some (JObj []))) (setInput ''Hello'' App_init)) = 2"
  by code_simp

text \<open>
  Claim C3, as the code has it: when the request of an exchange is rejected (network
  error), or the body of the reply is not JSON, or it is the JSON value \<^verbatim>\<open>null\<close>, exactly one
  error message with the fixed notice is appended after the user message and the turn
  counter is not advanced. The HTTP status is never inspected: two replies with the same
  body and different statuses have the same effect.
\<close>

theorem C3_thrown_exchange_appends_error:
  "(trim (input st) \<noteq> [] \<and>
    (r = Rejected \<or> r = Resolved status None \<or> r = Resolved status (Some JNull)) \<longrightarrow>
      messages (changeEvent r st) = messages st @ [userMessage (input st), errorMessage] \<and>
      turnId (changeEvent r st) = turnId st) \<and>
   changeEvent (Resolved status b) st = changeEvent (Resolved status' b) st"
proof -
  have "changeEvent_try r = Inl FetchRejected \<or> changeEvent_try r = Inl BodyNotJson \<or>
        changeEvent_try r = Inl NullProperty"
    if "r = Rejected \<or> r = Resolved status None \<or> r = Resolved status (Some JNull)"
    using that by (auto simp: changeEvent_try_def await_json_def)
  then have "messages (changeEvent r st) = messages st @ [userMessage (input st), errorMessage] \<and>
      turnId (changeEvent r st) = turnId st"
    if "trim (input st) \<noteq> []"
       "r = Rejected \<or> r = Resolved status None \<or> r = Resolved status (Some JNull)"
    using that changeEvent_thrown(1,2)[OF that(1)] by metis
  moreover have "changeEvent (Resolved status b) st = changeEvent (Resolved status' b) st"
    by (rule changeEvent_status)
  ultimately show ?thesis by blast
qed

text \<open>The statement at concrete inputs.\<close>

theorem C3_thrown_exchange_appends_error_witness:
  "trim (input (setInput ''Hello'' App_init)) \<noteq> [] \<and>
   messages (changeEvent Rejected (setInput ''Hello'' App_init)) =
     [userMessage ''Hello'', errorMessage] \<and>
   turnId (changeEvent Rejected (setInput ''Hello'' App_init)) = 1"
  using C3_thrown_exchange_appends_error [of "setInput ''Hello'' App_init" Rejected 0 None 0]
  by (simp add: setInput_def App_init_def trim_def is_ws_def)

text \<open>
  Claim C4: after \<open>N\<close> successful exchanges from the initial state, each with a text that
  is not empty after trimming, the turn counter is \<open>1 + N\<close> and the transcript has exactly
  \<open>2N\<close> messages whose senders alternate user, bot, user, bot, ...
\<close>

theorem C4_successful_exchanges:
  "\<forall>x\<in>set xs. trim (fst x) \<noteq> [] \<and> \<not> chat_fails (snd x) \<Longrightarrow>
     turnId (exchanges xs App_init) = 1 + int (length xs) \<and>
     length (messages (exchanges xs App_init)) = 2 * length xs \<and>
     map sender (messages (exchanges xs App_init)) =
       concat (replicate (length xs) [''user'', ''bot''])"
proof -
  assume a: "\<forall>x\<in>set xs. trim (fst x) \<noteq> [] \<and> \<not> chat_fails (snd x)"
  have t: "turnId (exchanges xs App_init) = turnId App_init + int (length xs)"
    and m: "map sender (messages (exchanges xs App_init)) =
       map sender (messages App_init) @ concat (replicate (length xs) [''user'', ''bot''])"
    using exchanges_replied [OF a, of App_init] by simp_all
  have "length (map sender (messages (exchanges xs App_init))) = 2 * length xs"
    unfolding m by (simp add: App_init_def length_concat sum_list_replicate)
  then have "length (messages (exchanges xs App_init)) = 2 * length xs" by simp
  with t m show ?thesis by (simp add: App_init_def)
qed

text \<open>The statement at concrete inputs.\<close>

theorem C4_successful_exchanges_witness:
  "trim ''Hello'' \<noteq> [] \<and>
   \<not> chat_fails (Resolved 200 (Some (JObj [(''response'', JStr ''Hi there!'')]))) \<and>
   trim ''How are you?'' \<noteq> [] \<and>
   \<not> chat_fails (Resolved 200 (Some (JObj [(''response'', JStr ''Fine.'')]))) \<and>
   turnId (exchanges
     [(''Hello'', Resolved 200 (Some (JObj [(''response'', JStr ''Hi there!'')]))),
      (''How are you?'', Resolved 200 (Some (JObj [(''response'', JStr ''Fine.'')])))]
     App_init) = 3 \<and>
   map sender (messages (exchanges
     [(''Hello'', Resolved 200 (Some (JObj [(''response'', JStr ''Hi there!'')]))),
      (''How are you?'', Resolved 200 (Some (JObj [(''response'', JStr ''Fine.'')])))]
     App_init)) = [''user'', ''bot'', ''user'', ''bot'']"
proof -
  have h: "\<forall>x\<in>set [(''Hello'', Resolved 200 (Some (JObj [(''response'', JStr ''Hi there!'')]))),
      (''How are you?'', Resolved 200 (Some (JObj [(''response'', JStr ''Fine.'')])))].
      trim (fst x) \<noteq> [] \<and> \<not> chat_fails (snd x)"
    by (simp add: trim_def is_ws_def chat_fails_def changeEvent_try_def await_json_def)
  show ?thesis
    using h C4_successful_exchanges [OF h]
    by (simp add: numeral_2_eq_2)
qed

text \<open>
  Claim C5 counts every non-success HTTP status of the session start as a failure. A reply
  of status 500 whose body carries a \<^verbatim>\<open>chat_session_id\<close> is handled like a success: the
  identifier is stored and nothing is logged as an error.
\<close>

theorem C5_counterexample:
  "\<not> http_ok 500 \<and>
   chatSessionId
     (startSession (App_closure [])
        (Resolved 500 (Some (JObj [(''chat_session_id'', JStr ''abc123'')]))) App_init) =
     JStr ''abc123'' \<and>
   console
     (startSession (App_closure [])
        (Resolved 500 (Some (JObj [(''chat_session_id'', JStr ''abc123'')]))) App_init) =
     [ConsoleLog ''Session started:'' (JObj [(''chat_session_id'', JStr ''abc123'')])]"
  by code_simp

text \<open>
  Claim C5, as the code has it: when the session request is rejected, or the body of the
  reply is not JSON or is \<^verbatim>\<open>null\<close>, the failure is logged, the stored identifier stays as it
  was (\<^verbatim>\<open>null\<close> after the mount) and \<^verbatim>\<open>loading\<close> is cleared; a JSON object without a
  \<^verbatim>\<open>chat_session_id\<close> field stores \<^verbatim>\<open>undefined\<close>, so no usable identifier is stored either.
  The HTTP status is never inspected: two replies with the same body and different
  statuses have the same effect.
\<close>

theorem C5_session_start_without_identifier:
  "((r = Rejected \<or> r = Resolved status None \<or> r = Resolved status (Some JNull)) \<longrightarrow>
      chatSessionId (startSession c r st) = chatSessionId st \<and>
      loading (startSession c r st) = False \<and>
      (\<exists>e. last (console (startSession c r st)) = ConsoleError ''Failed to start session:'' e)) \<and>
   (map_of kvs ''chat_session_id'' = None \<longrightarrow>
      chatSessionId (startSession c (Resolved status (Some (JObj kvs))) st) = JUndefined \<and>
      loading (startSession c (Resolved status (Some (JObj kvs))) st) = False) \<and>
   startSession c (Resolved status b) st = startSession c (Resolved status' b) st"
proof -
  have "chatSessionId (startSession c r st) = chatSessionId st \<and>
      loading (startSession c r st) = False \<and>
      (\<exists>e. last (console (startSession c r st)) = ConsoleError ''Failed to start session:'' e)"
    if "r = Rejected \<or> r = Resolved status None \<or> r = Resolved status (Some JNull)"
    using that
    by (auto simp: startSession_def startSession_call_def startSession_resume_def await_json_def)
  moreover have "chatSessionId (startSession c (Resolved status (Some (JObj kvs))) st) = JUndefined \<and>
      loading (startSession c (Resolved status (Some (JObj kvs))) st) = False"
    if "map_of kvs ''chat_session_id'' = None"
    using that
    by (simp add: startSession_def startSession_call_def startSession_resume_def await_json_def)
  moreover note startSession_status [of c status b st status']
  ultimately show ?thesis by blast
qed

text \<open>The statement at concrete inputs.\<close>

theorem C5_session_start_without_identifier_witness:
  "chatSessionId (startSession (App_closure []) Rejected App_init) = JNull \<and>
   loading (startSession (App_closure []) Rejected App_init) = False \<and>
   map_of [(''detail'', JStr ''Internal Server Error'')] ''chat_session_id'' = None \<and>
   chatSessionId
     (startSession (App_closure [])
        (Resolved 500 (Some (JObj [(''detail'', JStr ''Internal Server Error'')]))) App_init) =
     JUndefined"
  using C5_session_start_without_identifier
          [of Rejected 500 "App_closure []" App_init "[(''detail'', JStr ''Internal Server Error'')]"]
  by (simp add: App_init_def)




text \<open>
  Claim C7: submitting a text that is empty or white space only (every character is one
  that \<^verbatim>\<open>trim\<close> strips, the no-break space included) does nothing, for any number of attempts: the call returns the state as it was, a click changes nothing, and
  after any sequence of such attempts the transcript, the turn counter and the list of
  requests sent are what they were.
\<close>

theorem C7_blank_submission_noop:
  "((\<forall>ch\<in>set (input st). is_ws ch) \<longrightarrow> changeEvent r st = st \<and> step c Click st = st) \<and>
   ((\<forall>x\<in>set xs. \<forall>ch\<in>set (fst x). is_ws ch) \<longrightarrow>
      messages (exchanges xs st) = messages st \<and>
      turnId (exchanges xs st) = turnId st \<and>
      sent (exchanges xs st) = sent st)"
proof -
  have "changeEvent r st = st \<and> step c Click st = st" if "\<forall>ch\<in>set (input st). is_ws ch"
    using that by (simp add: changeEvent_blank trim_empty_iff button_disabled_def)
  moreover have "messages (exchanges xs st) = messages st \<and>
      turnId (exchanges xs st) = turnId st \<and> sent (exchanges xs st) = sent st"
    if "\<forall>x\<in>set xs. \<forall>ch\<in>set (fst x). is_ws ch"
    using exchanges_blank [OF that, of st] by simp
  ultimately show ?thesis by blast
qed

text \<open>The statement at concrete inputs.\<close>

theorem C7_blank_submission_noop_witness:
  "changeEvent Rejected (setInput ''   '' App_init) = setInput ''   '' App_init \<and>
   messages (exchanges
      [(''   '', Rejected), ('''', Rejected), ([CHR 0x09, CHR 0xA0, CHR '' ''], Rejected)]
      App_init) = [] \<and>
   turnId (exchanges
      [(''   '', Rejected), ('''', Rejected), ([CHR 0x09, CHR 0xA0, CHR '' ''], Rejected)]
      App_init) = 1 \<and>
   sent (exchanges
      [(''   '', Rejected), ('''', Rejected), ([CHR 0x09, CHR 0xA0, CHR '' ''], Rejected)]
      App_init) = []"
proof -
  have h1: "\<forall>ch\<in>set (input (setInput ''   '' App_init)). is_ws ch"
    by (simp add: setInput_def is_ws_def)
  have h2: "\<forall>x\<in>set [(''   '', Rejected), ('''', Rejected),
                     ([CHR 0x09, CHR 0xA0, CHR '' ''], Rejected)].
              \<forall>ch\<in>set (fst x). is_ws ch"
    by (simp add: is_ws_def)
  show ?thesis
    using h1 h2
      C7_blank_submission_noop [of "setInput ''   '' App_init" Rejected _ "[]"]
      C7_blank_submission_noop
        [of App_init _ _
           "[(''   '', Rejected), ('''', Rejected), ([CHR 0x09, CHR 0xA0, CHR '' ''], Rejected)]"]
    by (simp add: App_init_def)
qed

text \<open>
  Claim C8: the transcript is append-only. After any sequence of events, after any sequence
  of exchanges and after one exchange, the old transcript is a prefix of the new one; the
  session start leaves the transcript as it is; and an exchange that is sent appends the
  user message first and then exactly one bot or error message.
\<close>

theorem C8_transcript_append_only:
  "prefix (messages st) (messages (run c es st)) \<and>
   prefix (messages st) (messages (exchanges xs st)) \<and>
   prefix (messages st) (messages (changeEvent r st)) \<and>
   messages (startSession c r st) = messages st \<and>
   (trim (input st) \<noteq> [] \<longrightarrow>
      (\<exists>m. messages (changeEvent r st) = messages st @ [userMessage (input st), m] \<and>
           (sender m = ''bot'' \<or> sender m = ''error'')))"
proof -
  have "\<exists>m. messages (changeEvent r st) = messages st @ [userMessage (input st), m] \<and>
           (sender m = ''bot'' \<or> sender m = ''error'')"
    if i: "trim (input st) \<noteq> []"
  proof (cases "changeEvent_try r")
    case (Inl e)
    from changeEvent_thrown(1) [OF i Inl] show ?thesis by (simp add: errorMessage_def)
  next
    case (Inr v)
    from changeEvent_replied(1) [OF i Inr] show ?thesis by (simp add: botMessage_def)
  qed
  then show ?thesis
    using run_messages_prefix [of st c es] exchanges_messages_prefix [of st xs]
      changeEvent_messages_prefix [of st r] startSession_messages [of c r st]
    by blast
qed

text \<open>The statement at concrete inputs.\<close>

theorem C8_transcript_append_only_witness:
  "trim (input (setInput ''Hello'' App_init)) \<noteq> [] \<and>
   (\<exists>m. messages (changeEvent Rejected (setInput ''Hello'' App_init)) = [userMessage ''Hello'', m] \<and>
        (sender m = ''bot'' \<or> sender m = ''error''))"
  using C8_transcript_append_only [of "setInput ''Hello'' App_init" _ _ _ Rejected]
  by (simp add: setInput_def App_init_def trim_def is_ws_def)

text \<open>
  Claim C9: the session-start request is a constant. For any two query strings the request
  issued at the mount is the same, with the body \<^verbatim>\<open>pid = "123456789"\<close>,
  \<^verbatim>\<open>study_id = "study_001"\<close>, \<^verbatim>\<open>prolific_session_id = "sessionId"\<close>, \<^verbatim>\<open>qr_pre = "qr_001"\<close>,
  \<^verbatim>\<open>experiment_id = "exp_001"\<close>: the values read from the URL are not used.
\<close>

theorem C9_session_request_constant:
  "startSession_request (App_closure q) = startSession_request (App_closure q') \<and>
   sent (step (App_closure q) Mounted st) = sent (step (App_closure q') Mounted st) \<and>
   sent (step (App_closure q) Mounted st) = sent st @
     [\<lparr>url = ''http://127.0.0.1:8000/session/start'', http_method = ''POST'',
       headers = [(''Content-Type'', ''application/json'')],
       body = JObj [(''pid'', JStr ''123456789''),
                    (''study_id'', JStr ''study_001''),
                    (''prolific_session_id'', JStr ''sessionId''),
                    (''qr_pre'', JStr ''qr_001''),
                    (''experiment_id'', JStr ''exp_001'')]\<rparr>]"
  by (simp add: startSession_request_def startSession_call_def)

text \<open>
  Claim C10: the input is cleared only by a successful exchange. A submission of white
  space only (as \<^verbatim>\<open>trim\<close> has it, the no-break space included) leaves the input as it is; a failed exchange leaves the submitted text in the
  input, with the error message last in the transcript; a successful exchange empties
  the input; and whenever a call of \<^verbatim>\<open>changeEvent\<close> changes the input, the exchange succeeded
  and the input is empty.
\<close>

theorem C10_input_cleared_only_on_success:
  "((\<forall>ch\<in>set (input st). is_ws ch) \<longrightarrow> input (changeEvent r st) = input st) \<and>
   (trim (input st) \<noteq> [] \<and> chat_fails r \<longrightarrow>
      input (changeEvent r st) = input st \<and>
      last (messages (changeEvent r st)) = errorMessage) \<and>
   (trim (input st) \<noteq> [] \<and> \<not> chat_fails r \<longrightarrow> input (changeEvent r st) = []) \<and>
   (input (changeEvent r st) \<noteq> input st \<longrightarrow> \<not> chat_fails r \<and> input (changeEvent r st) = [])"
proof -
  have a: "input (changeEvent r st) = input st" if "\<forall>ch\<in>set (input st). is_ws ch"
    using that by (simp add: changeEvent_blank trim_empty_iff)
  have b: "input (changeEvent r st) = input st \<and> last (messages (changeEvent r st)) = errorMessage"
    if "trim (input st) \<noteq> []" "chat_fails r"
  proof -
    from that(2) obtain e where "changeEvent_try r = Inl e" using chat_fails_thrown by blast
    from changeEvent_thrown(1,3) [OF that(1) this] show ?thesis by simp
  qed
  have d: "input (changeEvent r st) = []" if "trim (input st) \<noteq> []" "\<not> chat_fails r"
  proof -
    from that(2) obtain v where "changeEvent_try r = Inr v" using not_chat_fails_replied by blast
    from changeEvent_replied(3) [OF that(1) this] show ?thesis .
  qed
  have e: "\<not> chat_fails r \<and> input (changeEvent r st) = []"
    if "input (changeEvent r st) \<noteq> input st"
    using that a b d trim_empty_iff [of "input st"] by blast
  from a b d e show ?thesis by blast
qed

text \<open>The statement at concrete inputs.\<close>

theorem C10_input_cleared_only_on_success_witness:
  "input (changeEvent Rejected (setInput ''   '' App_init)) = ''   '' \<and>
   input (changeEvent (Resolved 200 (Some (JObj [(''response'', JStr ''Hi there!'')])))
            (setInput [CHR 0xA0, CHR '' ''] App_init)) = [CHR 0xA0, CHR '' ''] \<and>
   trim (input (setInput ''Hello'' App_init)) \<noteq> [] \<and> chat_fails Rejected \<and>
   input (changeEvent Rejected (setInput ''Hello'' App_init)) = ''Hello'' \<and>
   last (messages (changeEvent Rejected (setInput ''Hello'' App_init))) = errorMessage \<and>
   \<not> chat_fails (Resolved 200 (Some (JObj [(''response'', JStr ''Hi there!'')]))) \<and>
   input (changeEvent (Resolved 200 (Some (JObj [(''response'', JStr ''Hi there!'')])))
            (setInput ''Hello'' App_init)) = []"
  using C10_input_cleared_only_on_success [of "setInput ''   '' App_init" Rejected]
    C10_input_cleared_only_on_success [of "setInput [CHR 0xA0, CHR '' ''] App_init"
      "Resolved 200 (Some (JObj [(''response'', JStr ''Hi there!'')]))"]
    C10_input_cleared_only_on_success [of "setInput ''Hello'' App_init" Rejected]
    C10_input_cleared_only_on_success [of "setInput ''Hello'' App_init"
      "Resolved 200 (Some (JObj [(''response'', JStr ''Hi there!'')]))"]
  by (simp add: setInput_def App_init_def trim_def is_ws_def chat_fails_def changeEvent_try_def
        await_json_def)

end
